theory Spec2Isabelle
  imports Complex_Main "HOL-Library.Word"
begin

section \<open>JavaScript strings\<close>

text \<open>
  A JavaScript string is a sequence of UTF-16 code units; \<open>length\<close>, \<open>slice\<close>,
  \<open>charAt\<close> and \<open>split\<close> all count code units. String literals of the source are
  written with \<open>js\<close>, which reads an ASCII literal as code units.
\<close>

type_synonym unit16 = "16 word"
type_synonym jsstring = "unit16 list"

definition js :: "string \<Rightarrow> jsstring" where
  "js s = map (\<lambda>c. of_nat (of_char c)) s"

text \<open>
  \<open>String.prototype.slice(start, end)\<close>: a negative index counts from the end, both
  indices are clamped to the string, and an empty string results when the end is
  not after the start. \<open>None\<close> is the omitted \<open>end\<close>.
\<close>

definition slice_js :: "int \<Rightarrow> int option \<Rightarrow> 'a list \<Rightarrow> 'a list" where
  "slice_js start end s =
     (let len = int (length s);
          from = (if start < 0 then max (len + start) 0 else min start len);
          to = (case end of None \<Rightarrow> len
                | Some e \<Rightarrow> if e < 0 then max (len + e) 0 else min e len)
      in if to \<le> from then [] else take (nat (to - from)) (drop (nat from) s))"

text \<open>\<open>charAt(i)\<close> is the one-unit string at \<open>i\<close>, or the empty string out of range.\<close>

definition charAt :: "nat \<Rightarrow> 'a list \<Rightarrow> 'a list" where
  "charAt i s = (if i < length s then [s ! i] else [])"

text \<open>
  \<open>String.prototype.trim\<close> removes the ECMAScript WhiteSpace and LineTerminator
  code units from both ends: TAB, LF, VT, FF, CR, SP, NBSP, U+1680, U+2000..U+200A,
  U+2028, U+2029, U+202F, U+205F, U+3000 and U+FEFF.
\<close>

definition isWhiteSpace :: "unit16 \<Rightarrow> bool" where
  "isWhiteSpace c \<longleftrightarrow>
     c = 0x09 \<or> c = 0x0A \<or> c = 0x0B \<or> c = 0x0C \<or> c = 0x0D \<or> c = 0x20 \<or> c = 0xA0 \<or>
     c = 0x1680 \<or> (0x2000 \<le> c \<and> c \<le> 0x200A) \<or> c = 0x2028 \<or> c = 0x2029 \<or>
     c = 0x202F \<or> c = 0x205F \<or> c = 0x3000 \<or> c = 0xFEFF"

definition trim :: "jsstring \<Rightarrow> jsstring" where
  "trim s = rev (dropWhile isWhiteSpace (rev (dropWhile isWhiteSpace s)))"

text \<open>\<open>Array.prototype.join(sep)\<close> on an array of strings.\<close>

fun join :: "'a list \<Rightarrow> 'a list list \<Rightarrow> 'a list" where
  "join sep [] = []"
| "join sep [w] = w"
| "join sep (w # ws) = w @ sep @ join sep ws"

text \<open>
  \<open>String.prototype.split(sep)\<close> for a one-unit separator: the pieces between the
  occurrences of the separator; the empty string splits into one empty piece.
\<close>

fun split :: "'a \<Rightarrow> 'a list \<Rightarrow> 'a list list" where
  "split sep [] = [[]]"
| "split sep (c # cs) =
     (if c = sep then [] # split sep cs
      else (case split sep cs of
              [] \<Rightarrow> [[c]]
            | w # ws \<Rightarrow> (c # w) # ws))"

section \<open>The index builder (\<open>search-index.json.ts\<close>)\<close>

text \<open>
  The endpoint that builds the search index is in the sources twice: a version
  without keywords (\<open>src/unnamed/part_004\<close>, lines 1 to 40) and a version with
  keywords (\<open>src/src/layouts/BaseLayout.astro\<close>, lines 44 to 90). Both compute the
  excerpt and the application name with the same expressions.
\<close>

subsection \<open>The excerpt\<close>

text \<open>
  \<^verbatim>\<open>content.slice(0, 200).replace(/[#*`]/g, '').trim() + '...'\<close>

  The global replace deletes every code unit of the class \<open>[#*`]\<close>, scanning from
  the left.
\<close>

definition isMarkup :: "unit16 \<Rightarrow> bool" where
  "isMarkup c \<longleftrightarrow> c = 0x23 \<or> c = 0x2A \<or> c = 0x60"

fun replaceMarkup :: "jsstring \<Rightarrow> jsstring" where
  "replaceMarkup [] = []"
| "replaceMarkup (c # cs) = (if isMarkup c then replaceMarkup cs else c # replaceMarkup cs)"

definition excerpt :: "jsstring \<Rightarrow> jsstring" where
  "excerpt content = trim (replaceMarkup (slice_js 0 (Some 200) content)) @ js ''...''"

subsection \<open>The application name\<close>

text \<open>
  \<^verbatim>\<open>app.split('-').map(word => word.charAt(0).toUpperCase() + word.slice(1)).join(' ')\<close>

  \<open>toUpperCase\<close> is applied to a string of at most one code unit, where it is the
  Unicode upper-case mapping of that unit (which may be longer than one unit). The
  mapping is the JavaScript runtime's; it is the parameter \<open>upper\<close>.
  \<open>asciiUpper\<close> is its value on the ASCII code units.
\<close>

definition toUpperCase :: "(unit16 \<Rightarrow> jsstring) \<Rightarrow> jsstring \<Rightarrow> jsstring" where
  "toUpperCase upper s = concat (map upper s)"

definition asciiUpper :: "unit16 \<Rightarrow> jsstring" where
  "asciiUpper c = (if 0x61 \<le> c \<and> c \<le> 0x7A then [c - 0x20] else [c])"

definition appName :: "(unit16 \<Rightarrow> jsstring) \<Rightarrow> jsstring \<Rightarrow> jsstring" where
  "appName upper app =
     join (js '' '')
       (map (\<lambda>word. toUpperCase upper (charAt 0 word) @ slice_js 1 None word)
            (split 0x2D app))"

subsection \<open>The keywords\<close>

text \<open>
  \<^verbatim>\<open>content.toLowerCase().match(/\b[a-zA-Z]{3,}\b/g)?.slice(0, 50).join(' ') || ''\<close>

  \<open>\b\<close> holds between two positions when exactly one of the code units around it
  is a word character \<open>[A-Za-z0-9_]\<close>, the outside of the string counting as a
  non-word character. \<open>boundary prev rest\<close> is \<open>\b\<close> at the position before \<open>rest\<close>,
  where \<open>prev\<close> tells whether the unit before it is a word character.
\<close>

definition isAlpha :: "unit16 \<Rightarrow> bool" where
  "isAlpha c \<longleftrightarrow> (0x41 \<le> c \<and> c \<le> 0x5A) \<or> (0x61 \<le> c \<and> c \<le> 0x7A)"

definition isWordChar :: "unit16 \<Rightarrow> bool" where
  "isWordChar c \<longleftrightarrow> isAlpha c \<or> (0x30 \<le> c \<and> c \<le> 0x39) \<or> c = 0x5F"

definition boundary :: "bool \<Rightarrow> jsstring \<Rightarrow> bool" where
  "boundary prev rest = (case rest of [] \<Rightarrow> prev | c # _ \<Rightarrow> prev \<noteq> isWordChar c)"

text \<open>
  The greedy \<open>[a-zA-Z]{3,}\<close> first takes the whole run of letters at the position
  and then gives units back, one at a time and never below three, until the closing
  \<open>\b\<close> holds: \<open>backtrack k s\<close> tries the lengths \<open>k, k - 1, ..., 3\<close>.
\<close>

fun backtrack :: "nat \<Rightarrow> jsstring \<Rightarrow> nat option" where
  "backtrack 0 s = None"
| "backtrack (Suc k) s =
     (if Suc k < 3 then None
      else if boundary (isWordChar (s ! k)) (drop (Suc k) s) then Some (Suc k)
      else backtrack k s)"

definition matchAt :: "bool \<Rightarrow> jsstring \<Rightarrow> nat option" where
  "matchAt prev s =
     (if boundary prev s then backtrack (length (takeWhile isAlpha s)) s else None)"

lemma backtrack_bounds: "backtrack k s = Some n \<Longrightarrow> 3 \<le> n \<and> n \<le> k"
  by (induction k) (auto split: if_splits)

lemma matchAt_pos: "matchAt prev s = Some n \<Longrightarrow> 0 < n"
  by (auto simp: matchAt_def split: if_splits dest: backtrack_bounds)

text \<open>
  The global match scans from the left: on a match at the current position the
  matched text is collected and the scan goes on after it, otherwise the scan moves
  one unit to the right.
\<close>

function matchAll :: "bool \<Rightarrow> jsstring \<Rightarrow> jsstring list" where
  "matchAll prev [] = []"
| "matchAll prev (c # cs) =
     (case matchAt prev (c # cs) of
        Some n \<Rightarrow> take n (c # cs) # matchAll (isWordChar ((c # cs) ! (n - 1))) (drop n (c # cs))
      | None \<Rightarrow> matchAll (isWordChar c) cs)"
  by pat_completeness auto
termination
  by (relation "measure (\<lambda>(prev, s). length s)") (auto dest: matchAt_pos)

text \<open>\<open>match\<close> with a global expression is \<open>null\<close> when nothing matches.\<close>

definition matchWords :: "jsstring \<Rightarrow> jsstring list option" where
  "matchWords s = (case matchAll False s of [] \<Rightarrow> None | m # ms \<Rightarrow> Some (m # ms))"

text \<open>
  \<open>toLowerCase\<close> on the whole content is the runtime's (it depends on context, as
  for the final sigma); it is the parameter \<open>lower\<close>. \<open>asciiLower\<close> is its value on
  strings of ASCII code units.
\<close>

definition asciiLower :: "jsstring \<Rightarrow> jsstring" where
  "asciiLower s = map (\<lambda>c. if 0x41 \<le> c \<and> c \<le> 0x5A then c + 0x20 else c) s"

definition contentKeywords :: "(jsstring \<Rightarrow> jsstring) \<Rightarrow> jsstring \<Rightarrow> jsstring" where
  "contentKeywords lower content =
     (case matchWords (lower content) of
        None \<Rightarrow> []
      | Some ms \<Rightarrow>
          (let k = join (js '' '') (slice_js 0 (Some 50) ms) in if k = [] then [] else k))"

subsection \<open>Documents and search records\<close>

text \<open>
  The documents are the entries of the content collection, validated against the
  schema of \<open>src/content/config.ts\<close> (its \<open>app\<close> and \<open>order\<close> fields are not read by
  the index builder). A date is its time value in milliseconds; the schema's
  \<open>z.date()\<close> admits valid dates only.
\<close>

datatype category = development | automation | support

record doc_data =
  title :: jsstring
  description :: "jsstring option"
  category :: category
  lastUpdated :: "int option"
  tags :: "jsstring list option"

record document =
  slug :: jsstring
  body :: "jsstring option"
  data :: doc_data

text \<open>
  The values a search record holds, and a record as the object literal it is:
  its properties in the order they are written.
\<close>

datatype jsval = Undefined | Null | Str jsstring | Arr "jsval list" | Date int

type_synonym jsobject = "(string \<times> jsval) list"

definition categoryStr :: "category \<Rightarrow> jsstring" where
  "categoryStr c = (case c of development \<Rightarrow> js ''development''
                    | automation \<Rightarrow> js ''automation'' | support \<Rightarrow> js ''support'')"

text \<open>\<open>doc.body || ''\<close>: an absent or empty body is the empty string.\<close>

definition contentOf :: "document \<Rightarrow> jsstring" where
  "contentOf doc = (case body doc of None \<Rightarrow> [] | Some b \<Rightarrow> if b = [] then [] else b)"

text \<open>\<open>doc.data.description || excerpt\<close>: an absent or empty description gives way.\<close>

definition descriptionOr :: "document \<Rightarrow> jsstring \<Rightarrow> jsstring" where
  "descriptionOr doc e =
     (case description (data doc) of None \<Rightarrow> e | Some d \<Rightarrow> if d = [] then e else d)"

text \<open>
  \<open>const [app] = doc.slug.split('/')\<close>: the first piece. \<open>split\<close> never returns the
  empty array (lemma \<open>split_not_Nil\<close>), so the binding is never \<open>undefined\<close>.
\<close>

definition firstSegment :: "jsstring \<Rightarrow> jsstring" where
  "firstSegment s = (case split 0x2F s of [] \<Rightarrow> [] | app # _ \<Rightarrow> app)"

definition tagsOf :: "document \<Rightarrow> jsval" where
  "tagsOf doc = (case tags (data doc) of None \<Rightarrow> Arr [] | Some ts \<Rightarrow> Arr (map Str ts))"

text \<open>
  The record of one document in the version of the endpoint without keywords
  (\<open>src/unnamed/part_004\<close>). \<open>toISOString\<close> is the runtime's; it is the parameter
  \<open>toISO\<close>. \<open>lastUpdated?.toISOString() || null\<close> is \<open>null\<close> for an absent date (and for
  an empty string).
\<close>

definition searchRecord ::
  "(unit16 \<Rightarrow> jsstring) \<Rightarrow> (int \<Rightarrow> jsstring) \<Rightarrow> document \<Rightarrow> jsobject" where
  "searchRecord upper toISO doc =
     (let content = contentOf doc;
          excerpt = excerpt content;
          app = firstSegment (slug doc);
          appName = appName upper app
      in [(''title'', Str (title (data doc))),
          (''description'', Str (descriptionOr doc excerpt)),
          (''url'', Str (js ''/'' @ slug doc)),
          (''app'', Str appName),
          (''category'', Str (categoryStr (category (data doc)))),
          (''tags'', tagsOf doc),
          (''content'', Str content),
          (''excerpt'', Str excerpt),
          (''lastUpdated'',
             (case lastUpdated (data doc) of
                None \<Rightarrow> Null
              | Some d \<Rightarrow> if toISO d = [] then Null else Str (toISO d)))])"

definition searchIndex ::
  "(unit16 \<Rightarrow> jsstring) \<Rightarrow> (int \<Rightarrow> jsstring) \<Rightarrow> document list \<Rightarrow> jsobject list" where
  "searchIndex upper toISO docs = map (searchRecord upper toISO) docs"

text \<open>
  The record in the version with keywords (the endpoint appended to
  \<open>src/src/layouts/BaseLayout.astro\<close>); \<open>lastUpdated || null\<close> keeps the date object.
\<close>

definition searchRecordKeywords ::
  "(unit16 \<Rightarrow> jsstring) \<Rightarrow> (jsstring \<Rightarrow> jsstring) \<Rightarrow> document \<Rightarrow> jsobject" where
  "searchRecordKeywords upper lower doc =
     (let content = contentOf doc;
          excerpt = excerpt content;
          app = firstSegment (slug doc);
          appName = appName upper app;
          contentKeywords = contentKeywords lower content
      in [(''title'', Str (title (data doc))),
          (''description'', Str (descriptionOr doc excerpt)),
          (''url'', Str (js ''/'' @ slug doc)),
          (''app'', Str appName),
          (''category'', Str (categoryStr (category (data doc)))),
          (''tags'', tagsOf doc),
          (''content'', Str content),
          (''excerpt'', Str excerpt),
          (''keywords'', Str contentKeywords),
          (''lastUpdated'',
             (case lastUpdated (data doc) of None \<Rightarrow> Null | Some d \<Rightarrow> Date d))])"

definition searchIndexKeywords ::
  "(unit16 \<Rightarrow> jsstring) \<Rightarrow> (jsstring \<Rightarrow> jsstring) \<Rightarrow> document list \<Rightarrow> jsobject list" where
  "searchIndexKeywords upper lower docs = map (searchRecordKeywords upper lower) docs"

subsection \<open>The served artifact\<close>

text \<open>
  \<open>JSON.stringify(searchIndex)\<close>, as the JSON value it writes: a property whose
  value is \<open>undefined\<close> is left out of its object, \<open>undefined\<close> in an array is
  written as \<open>null\<close>, and a date is written through \<open>toJSON\<close> as its ISO string.
\<close>

datatype json =
  JNull | JBool bool | JNumber rat | JString jsstring | JArray "json list"
  | JObject "(string \<times> json) list"

fun stringifyVal :: "(int \<Rightarrow> jsstring) \<Rightarrow> jsval \<Rightarrow> json option" where
  "stringifyVal toISO Undefined = None"
| "stringifyVal toISO Null = Some JNull"
| "stringifyVal toISO (Str s) = Some (JString s)"
| "stringifyVal toISO (Date d) = Some (JString (toISO d))"
| "stringifyVal toISO (Arr vs) =
     Some (JArray (map (\<lambda>v. case stringifyVal toISO v of None \<Rightarrow> JNull | Some j \<Rightarrow> j) vs))"

fun stringifyProps :: "(int \<Rightarrow> jsstring) \<Rightarrow> jsobject \<Rightarrow> (string \<times> json) list" where
  "stringifyProps toISO [] = []"
| "stringifyProps toISO ((k, v) # ps) =
     (case stringifyVal toISO v of
        None \<Rightarrow> stringifyProps toISO ps
      | Some j \<Rightarrow> (k, j) # stringifyProps toISO ps)"

definition stringify :: "(int \<Rightarrow> jsstring) \<Rightarrow> jsobject list \<Rightarrow> json" where
  "stringify toISO records = JArray (map (\<lambda>r. JObject (stringifyProps toISO r)) records)"

section \<open>The search client (the script of \<open>SearchBox.astro\<close>)\<close>

text \<open>
  The search component is in \<open>src/.github/workflows/build-and-deploy.yml\<close>, lines 227
  to 389; its script starts at line 258.
\<close>

subsection \<open>The match engine and its configuration\<close>

text \<open>
  The \<open>options\<close> object handed to \<open>new Fuse\<close>. The weights are the decimal literals
  of the source, read as exact rationals.
\<close>

record fuse_options =
  keys :: "(string \<times> rat) list"
  threshold :: rat
  includeScore :: bool
  includeMatches :: bool
  minMatchCharLength :: nat

definition options :: fuse_options where
  "options =
     \<lparr>keys = [(''title'', 0.3), (''tags'', 0.25), (''description'', 0.2),
              (''keywords'', 0.1), (''app'', 0.1), (''category'', 0.05)],
      threshold = 0.3,
      includeScore = True,
      includeMatches = True,
      minMatchCharLength = 2\<rparr>"

text \<open>
  A \<open>Fuse\<close> instance is the collection it was built over and its options. The
  library itself is not part of the repository; it is a parameter of the model:
  whether \<open>new Fuse(collection, options)\<close> throws, and \<open>fuse.search\<close> as a function
  from the instance and the query to the results or to the exception it throws.
\<close>

record fuse_instance =
  collection :: json
  fuseOptions :: fuse_options

record fuse_result =
  item :: json
  score :: rat

datatype exn = ImportFailed | FetchFailed | HttpError nat | ParseFailed | TypeError | LibraryError

record library =
  constructorThrows :: "json \<Rightarrow> fuse_options \<Rightarrow> exn option"
  fuseSearch :: "fuse_instance \<Rightarrow> jsstring \<Rightarrow> exn + fuse_result list"

subsection \<open>The state of the page\<close>

text \<open>
  What the script can read and write: its module variables \<open>Fuse\<close> (\<open>fuseModule\<close>
  tells whether it is loaded), \<open>searchIndex\<close> (\<open>indexVar\<close>) and \<open>fuse\<close>, the closure
  variable \<open>searchTimeout\<close>, the elements \<open>search-results-content\<close> and
  \<open>search-results\<close> of the dropdown (\<open>None\<close> when \<open>getElementById\<close> finds none; the
  content as what is rendered in it, the dropdown as whether it carries the class
  \<open>hidden\<close>), the value of the input, the browser's pending timers (id, due time and
  the query of the callback) and clock, and the console. \<open>queries\<close>, \<open>engineCalls\<close> and
  \<open>uncaught\<close> record, in order, the arguments of the calls of \<open>search\<close>, the
  arguments of the calls of \<open>fuse.search\<close>, and the exceptions no handler caught.
\<close>

datatype rendered = Placeholder | NoResultsFound | Links "fuse_result list"

datatype log_entry =
  Initializing | IndexLoaded json | SearchInitialized | LoadFailed exn
  | SearchResults jsstring "fuse_result list"

record client =
  fuseModule :: bool
  indexVar :: json
  fuse :: "fuse_instance option"
  searchTimeout :: "nat option"
  resultsContent :: "rendered option"
  resultsHidden :: "bool option"
  inputValue :: jsstring
  timers :: "(nat \<times> nat \<times> jsstring) list"
  nextTimer :: nat
  now :: nat
  console :: "log_entry list"
  queries :: "jsstring list"
  engineCalls :: "jsstring list"
  uncaught :: "exn list"

text \<open>
  The page as served, after the \<open>DOMContentLoaded\<close> handler has started
  \<open>initializeSearch\<close> and registered the listeners: the dropdown carries the class
  \<open>hidden\<close> and its content is the placeholder comment.
\<close>

definition initialClient :: client where
  "initialClient =
     \<lparr>fuseModule = False, indexVar = JArray [], fuse = None, searchTimeout = None,
      resultsContent = Some Placeholder, resultsHidden = Some True, inputValue = [],
      timers = [], nextTimer = 1, now = 0, console = [Initializing],
      queries = [], engineCalls = [], uncaught = []\<rparr>"

subsection \<open>\<open>initializeSearch\<close>\<close>

text \<open>
  What the outside answers: whether the dynamic import of the library resolves,
  the response of the fetch (\<open>None\<close> when the fetch rejects) and the JSON value of
  its body (\<open>None\<close> when \<open>response.json()\<close> rejects). \<open>response.ok\<close> is true exactly
  for the statuses 200 to 299.
\<close>

record response =
  status :: nat
  jsonBody :: "json option"

record outside =
  importResolves :: bool
  fetched :: "response option"

definition responseOk :: "response \<Rightarrow> bool" where
  "responseOk r \<longleftrightarrow> 200 \<le> status r \<and> status r \<le> 299"

text \<open>
  The body of the \<open>try\<close>: the exception thrown, if any, and the state at that point.
  Reading \<open>searchIndex.length\<close> for the log throws a \<open>TypeError\<close> when the body is
  \<open>null\<close>.
\<close>

definition tryInitialize :: "library \<Rightarrow> outside \<Rightarrow> client \<Rightarrow> exn option \<times> client" where
  "tryInitialize L out st =
     (if \<not> importResolves out then (Some ImportFailed, st)
      else
        let st1 = st\<lparr>fuseModule := True\<rparr> in
        case fetched out of
          None \<Rightarrow> (Some FetchFailed, st1)
        | Some resp \<Rightarrow>
            if \<not> responseOk resp then (Some (HttpError (status resp)), st1)
            else
              (case jsonBody resp of
                 None \<Rightarrow> (Some ParseFailed, st1)
               | Some j \<Rightarrow>
                   let st2 = st1\<lparr>indexVar := j\<rparr> in
                   if j = JNull then (Some TypeError, st2)
                   else
                     let st3 = st2\<lparr>console := console st2 @ [IndexLoaded j]\<rparr> in
                     (case constructorThrows L j options of
                        Some e \<Rightarrow> (Some e, st3)
                      | None \<Rightarrow>
                          (None,
                           st3\<lparr>fuse := Some \<lparr>collection = j, fuseOptions = options\<rparr>,
                               console := console st3 @ [SearchInitialized]\<rparr>))))"

text \<open>The \<open>catch\<close> logs the exception; the result says what escapes the function.\<close>

definition initializeSearch :: "library \<Rightarrow> outside \<Rightarrow> client \<Rightarrow> exn option \<times> client" where
  "initializeSearch L out st =
     (case tryInitialize L out st of
        (None, st') \<Rightarrow> (None, st')
      | (Some e, st') \<Rightarrow> (None, st'\<lparr>console := console st' @ [LoadFailed e]\<rparr>))"

subsection \<open>\<open>search\<close>, \<open>displayResults\<close>, \<open>hideResults\<close>\<close>

definition hideResults :: "client \<Rightarrow> client" where
  "hideResults st =
     (case resultsHidden st of None \<Rightarrow> st | Some _ \<Rightarrow> st\<lparr>resultsHidden := Some True\<rparr>)"

text \<open>
  \<open>displayResults\<close> writes the message or the links of the first ten results into
  the content element (the links are kept as the results they are rendered from)
  and removes the class \<open>hidden\<close>; it returns at once when either element is missing.
\<close>

definition displayResults :: "fuse_result list \<Rightarrow> client \<Rightarrow> client" where
  "displayResults results st =
     (case (resultsContent st, resultsHidden st) of
        (Some _, Some _) \<Rightarrow>
          st\<lparr>resultsContent :=
                Some (if length results = 0 then NoResultsFound
                      else Links (slice_js 0 (Some 10) results)),
             resultsHidden := Some False\<rparr>
      | _ \<Rightarrow> st)"

definition search :: "library \<Rightarrow> jsstring \<Rightarrow> client \<Rightarrow> exn option \<times> client" where
  "search L query st0 =
     (let st = st0\<lparr>queries := queries st0 @ [query]\<rparr> in
      case fuse st of
        None \<Rightarrow> (None, hideResults st)
      | Some f \<Rightarrow>
          if trim query = [] then (None, hideResults st)
          else
            (case fuseSearch L f query of
               Inl e \<Rightarrow> (Some e, st\<lparr>engineCalls := engineCalls st @ [query]\<rparr>)
             | Inr results \<Rightarrow>
                 (None,
                  displayResults results
                    (st\<lparr>engineCalls := engineCalls st @ [query],
                        console := console st @ [SearchResults query results]\<rparr>))))"

subsection \<open>The listeners and the timers\<close>

text \<open>
  The listeners are registered when the input element exists; the events below are
  the events of that page. An exception that leaves a listener or a timer callback
  is reported by the browser; what the callback did before stays done.
\<close>

definition callback :: "exn option \<times> client \<Rightarrow> client" where
  "callback r =
     (case r of
        (None, st) \<Rightarrow> st
      | (Some e, st) \<Rightarrow> st\<lparr>uncaught := uncaught st @ [e]\<rparr>)"

text \<open>\<open>clearTimeout(id)\<close>: the timer of that id, if pending, is dropped.\<close>

definition clearTimeout :: "nat option \<Rightarrow> client \<Rightarrow> client" where
  "clearTimeout h st = st\<lparr>timers := filter (\<lambda>(i, due, q). Some i \<noteq> h) (timers st)\<rparr>"

text \<open>
  \<open>setTimeout(() => search(query), delay)\<close>: a new pending timer with a fresh id,
  due \<open>delay\<close> milliseconds from now; the id is returned.
\<close>

definition setTimeout :: "jsstring \<Rightarrow> nat \<Rightarrow> client \<Rightarrow> nat \<times> client" where
  "setTimeout query delay st =
     (nextTimer st,
      st\<lparr>timers := timers st @ [(nextTimer st, now st + delay, query)],
         nextTimer := Suc (nextTimer st)\<rparr>)"

text \<open>The \<open>input\<close> listener; the input already holds the new value.\<close>

definition onInput :: "jsstring \<Rightarrow> client \<Rightarrow> client" where
  "onInput v st0 =
     (let st = clearTimeout (searchTimeout st0) (st0\<lparr>inputValue := v\<rparr>);
          query = inputValue st;
          (h, st') = setTimeout query 300 st
      in st'\<lparr>searchTimeout := Some h\<rparr>)"

text \<open>The \<open>focus\<close> listener.\<close>

definition onFocus :: "library \<Rightarrow> client \<Rightarrow> client" where
  "onFocus L st =
     (if trim (inputValue st) \<noteq> [] then callback (search L (inputValue st) st) else st)"

text \<open>
  The \<open>click\<close> listener of the document, by where the click lands; a click can land
  in the results only when that element exists.
\<close>

datatype target = InInput | InResults | Elsewhere

definition onClick :: "target \<Rightarrow> client \<Rightarrow> client" where
  "onClick t st =
     (if t \<noteq> InInput \<and> \<not> (resultsHidden st \<noteq> None \<and> t = InResults) then hideResults st
      else st)"

text \<open>
  The \<open>keydown\<close> listener, by the name of the key. \<open>searchInput.blur()\<close> moves the
  browser's focus, which the script never reads.
\<close>

definition onKeydown :: "string \<Rightarrow> client \<Rightarrow> client" where
  "onKeydown k st = (if k = ''Escape'' then hideResults st else st)"

text \<open>
  Time passes: the clock advances by \<open>d\<close> milliseconds and the timers that are due
  fire in the order they were set (all delays are equal, so that is the order they
  are due in). A timer callback is \<open>search(query)\<close>.
\<close>

fun fire :: "library \<Rightarrow> (nat \<times> nat \<times> jsstring) list \<Rightarrow> client \<Rightarrow> client" where
  "fire L [] st = st"
| "fire L ((i, due, q) # ts) st = fire L ts (callback (search L q st))"

definition tick :: "library \<Rightarrow> nat \<Rightarrow> client \<Rightarrow> client" where
  "tick L d st =
     (let t = now st + d;
          due = filter (\<lambda>(i, due, q). due \<le> t) (timers st);
          pending = filter (\<lambda>(i, due, q). \<not> due \<le> t) (timers st)
      in fire L due (st\<lparr>now := t, timers := pending\<rparr>))"

datatype event = Tick nat | Input jsstring | Focus | Click target | Keydown string

fun handle :: "library \<Rightarrow> event \<Rightarrow> client \<Rightarrow> client" where
  "handle L (Tick d) st = tick L d st"
| "handle L (Input v) st = onInput v st"
| "handle L Focus st = onFocus L st"
| "handle L (Click t) st = onClick t st"
| "handle L (Keydown k) st = onKeydown k st"

fun run :: "library \<Rightarrow> event list \<Rightarrow> client \<Rightarrow> client" where
  "run L [] st = st"
| "run L (ev # evs) st = run L evs (handle L ev st)"

text \<open>
  A burst of keystrokes: each pair is the time since the previous event and the
  value of the input after the keystroke.
\<close>

fun keystrokes :: "(nat \<times> jsstring) list \<Rightarrow> event list" where
  "keystrokes [] = []"
| "keystrokes ((d, v) # ks) = Tick d # Input v # keystrokes ks"

subsection \<open>Reference descriptions and example inputs\<close>

text \<open>
  The display name, read off the specification: one pass over the path segment that
  writes a space for every \<open>-\<close> and the upper-case mapping of every unit that starts
  a word (\<open>start\<close> holds at the beginning and after a \<open>-\<close>).
\<close>

fun displayName :: "(unit16 \<Rightarrow> jsstring) \<Rightarrow> bool \<Rightarrow> jsstring \<Rightarrow> jsstring" where
  "displayName upper start [] = []"
| "displayName upper start (c # cs) =
     (if c = 0x2D then 0x20 # displayName upper True cs
      else (if start then upper c else [c]) @ displayName upper False cs)"

text \<open>The callback of \<open>map\<close> in \<open>appName\<close>, named.\<close>

definition capitalize :: "(unit16 \<Rightarrow> jsstring) \<Rightarrow> jsstring \<Rightarrow> jsstring" where
  "capitalize upper word = toUpperCase upper (charAt 0 word) @ slice_js 1 None word"

text \<open>The maximal non-empty runs of units that satisfy \<open>P\<close>, from left to right.\<close>

function runs :: "('a \<Rightarrow> bool) \<Rightarrow> 'a list \<Rightarrow> 'a list list" where
  "runs P [] = []"
| "runs P (c # cs) =
     (if P c then (c # takeWhile P cs) # runs P (dropWhile P cs) else runs P cs)"
  by pat_completeness auto
termination
  by (relation "measure (\<lambda>(P, s). length s)") (auto simp: length_dropWhile_le less_Suc_eq_le)

text \<open>A whole word of letters: at least three units, all of them ASCII letters.\<close>

definition wholeWord :: "jsstring \<Rightarrow> bool" where
  "wholeWord w \<longleftrightarrow> 3 \<le> length w \<and> list_all isAlpha w"

text \<open>
  The single-slot pattern of the debounce: at most one timer is pending, and
  \<open>searchTimeout\<close> is its handle.
\<close>

definition singleSlot :: "client \<Rightarrow> bool" where
  "singleSlot st =
     (case timers st of
        [] \<Rightarrow> True
      | [(i, due, q)] \<Rightarrow> searchTimeout st = Some i
      | _ \<Rightarrow> False)"

text \<open>
  Example inputs of the search client: a library whose constructor does not throw
  and whose search finds nothing, a fetch answered with status 200 and an empty
  index, a fetch answered with status 500, and the page after each of them.
\<close>

definition quietLibrary :: library where
  "quietLibrary = \<lparr>constructorThrows = (\<lambda>j opts. None), fuseSearch = (\<lambda>f q. Inr [])\<rparr>"

definition answered :: "nat \<Rightarrow> outside" where
  "answered code =
     \<lparr>importResolves = True, fetched = Some \<lparr>status = code, jsonBody = Some (JArray [])\<rparr>\<rparr>"

definition readyClient :: client where
  "readyClient = snd (initializeSearch quietLibrary (answered 200) initialClient)"

definition failedClient :: client where
  "failedClient = snd (initializeSearch quietLibrary (answered 500) initialClient)"

text \<open>
  \<open>toISOString\<close> at the time value 0, for example documents dated at the epoch.
\<close>

definition epochISO :: "int \<Rightarrow> jsstring" where
  "epochISO t = js ''1970-01-01T00:00:00.000Z''"

definition exampleDoc :: document where
  "exampleDoc =
     \<lparr>slug = js ''application-one/support'',
      body = Some (js ''## Setup app_config for *Application One*  ''),
      data = \<lparr>title = js ''Application One - Support Guide'', description = None,
               category = support, lastUpdated = Some 0, tags = Some [js ''support'']\<rparr>\<rparr>"

section \<open>Properties of the index builder\<close>

subsection \<open>Library operations\<close>

lemma slice_js_take: "slice_js 0 (Some (int n)) s = take n s"
  by (auto simp: slice_js_def Let_def min_def)

lemma slice_js_tail: "slice_js 1 None s = drop 1 s"
  by (auto simp: slice_js_def Let_def min_def)

lemma replaceMarkup_filter: "replaceMarkup s = filter (\<lambda>c. \<not> isMarkup c) s"
  by (induction s) auto

lemma split_not_Nil: "split sep s \<noteq> []"
  by (induction s) (auto split: list.splits)

lemma trim_Nil: "trim [] = []"
  by (simp add: trim_def)

subsection \<open>Excerpt\<close>

lemma excerpt_alt:
  "excerpt b =
     trim (filter (\<lambda>c. c \<noteq> 0x23 \<and> c \<noteq> 0x2A \<and> c \<noteq> 0x60) (take 200 b)) @ js ''...''"
  using slice_js_take [of 200 b] by (simp add: excerpt_def replaceMarkup_filter isMarkup_def)

lemma record_excerpt:
  "map_of (searchRecord upper toISO doc) ''excerpt'' = Some (Str (excerpt (contentOf doc)))"
  "map_of (searchRecordKeywords upper lower doc) ''excerpt'' = Some (Str (excerpt (contentOf doc)))"
  by (simp_all add: searchRecord_def searchRecordKeywords_def Let_def)

text \<open>
  C1. In both versions of the endpoint the \<open>excerpt\<close> of a document's record is the
  first 200 code units of the body, without \<open>#\<close>, \<open>*\<close> and the backtick, trimmed,
  followed by \<open>...\<close>. For a body of at most 200 units that is the whole stripped and
  trimmed body followed by \<open>...\<close>, and for an empty or absent body it is \<open>...\<close> alone.
\<close>

theorem excerpt_first_200:
  "(let b = contentOf doc;
        e = trim (filter (\<lambda>c. c \<noteq> 0x23 \<and> c \<noteq> 0x2A \<and> c \<noteq> 0x60) (take 200 b)) @ js ''...''
    in map_of (searchRecord upper toISO doc) ''excerpt'' = Some (Str e) \<and>
       map_of (searchRecordKeywords upper lower doc) ''excerpt'' = Some (Str e) \<and>
       (length b \<le> 200 \<longrightarrow>
          e = trim (filter (\<lambda>c. c \<noteq> 0x23 \<and> c \<noteq> 0x2A \<and> c \<noteq> 0x60) b) @ js ''...'') \<and>
       (b = [] \<longrightarrow> e = js ''...''))"
proof -
  have "take 200 (contentOf doc) = contentOf doc" if "length (contentOf doc) \<le> 200"
    using that by simp
  then show ?thesis
    unfolding Let_def excerpt_alt [symmetric] record_excerpt
    by (auto simp: excerpt_alt trim_Nil)
qed

theorem excerpt_first_200_witness:
  "length (contentOf exampleDoc) \<le> 200 \<and>
   map_of (searchRecord asciiUpper epochISO exampleDoc) ''excerpt'' =
     Some (Str (js ''Setup app_config for Application One...'')) \<and>
   map_of (searchRecordKeywords asciiUpper asciiLower exampleDoc) ''excerpt'' =
     Some (Str (js ''Setup app_config for Application One...'')) \<and>
   contentOf (exampleDoc\<lparr>body := None\<rparr>) = [] \<and>
   map_of (searchRecord asciiUpper epochISO (exampleDoc\<lparr>body := None\<rparr>)) ''excerpt'' =
     Some (Str (js ''...''))"
  using excerpt_first_200 [of exampleDoc asciiUpper epochISO asciiLower]
    excerpt_first_200 [of "exampleDoc\<lparr>body := None\<rparr>" asciiUpper epochISO asciiLower]
  by (simp add: Let_def contentOf_def exampleDoc_def js_def trim_def isWhiteSpace_def)

subsection \<open>One record per document\<close>

lemma record_url:
  "map_of (searchRecord upper toISO doc) ''url'' = Some (Str (js ''/'' @ slug doc))"
  "map_of (searchRecordKeywords upper lower doc) ''url'' = Some (Str (js ''/'' @ slug doc))"
  by (simp_all add: searchRecord_def searchRecordKeywords_def Let_def)

text \<open>
  C2. Both versions of the index builder produce one record per document, in the
  order of the documents: the list of records is as long as the list of documents,
  the \<open>url\<close> of the i-th record is \<open>/\<close> followed by the slug of the i-th document, and
  the served array has one object per document.
\<close>

theorem one_record_per_document:
  "length (searchIndex upper toISO docs) = length docs \<and>
   length (searchIndexKeywords upper lower docs) = length docs \<and>
   map (\<lambda>r. map_of r ''url'') (searchIndex upper toISO docs) =
     map (\<lambda>d. Some (Str (js ''/'' @ slug d))) docs \<and>
   map (\<lambda>r. map_of r ''url'') (searchIndexKeywords upper lower docs) =
     map (\<lambda>d. Some (Str (js ''/'' @ slug d))) docs \<and>
   stringify toISO (searchIndex upper toISO docs) =
     JArray (map (\<lambda>d. JObject (stringifyProps toISO (searchRecord upper toISO d))) docs) \<and>
   stringify toISO (searchIndexKeywords upper lower docs) =
     JArray (map (\<lambda>d. JObject (stringifyProps toISO (searchRecordKeywords upper lower d))) docs)"
  by (simp add: searchIndex_def searchIndexKeywords_def stringify_def record_url comp_def)

theorem one_record_per_document_witness:
  "length (searchIndex asciiUpper epochISO
      [exampleDoc, exampleDoc\<lparr>slug := js ''application-two/support''\<rparr>]) = 2 \<and>
   map (\<lambda>r. map_of r ''url'') (searchIndexKeywords asciiUpper asciiLower
      [exampleDoc, exampleDoc\<lparr>slug := js ''application-two/support''\<rparr>]) =
     [Some (Str (js ''/application-one/support'')), Some (Str (js ''/application-two/support''))]"
  using one_record_per_document [of asciiUpper epochISO
      "[exampleDoc, exampleDoc\<lparr>slug := js ''application-two/support''\<rparr>]" asciiLower]
  by (simp add: exampleDoc_def js_def)

subsection \<open>The keys of a served record\<close>

lemma served_keys:
  "map fst (stringifyProps toISO (searchRecord upper toISO' doc)) =
     [''title'', ''description'', ''url'', ''app'', ''category'', ''tags'', ''content'',
      ''excerpt'', ''lastUpdated'']"
  by (simp add: searchRecord_def Let_def tagsOf_def split: option.splits)

lemma served_keys_keywords:
  "map fst (stringifyProps toISO (searchRecordKeywords upper lower doc)) =
     [''title'', ''description'', ''url'', ''app'', ''category'', ''tags'', ''content'',
      ''excerpt'', ''keywords'', ''lastUpdated'']"
  by (simp add: searchRecordKeywords_def Let_def tagsOf_def split: option.splits)

lemma served_tags:
  "map_of (stringifyProps toISO (searchRecord upper toISO' doc)) ''tags'' =
     Some (JArray (map JString (case tags (data doc) of None \<Rightarrow> [] | Some ts \<Rightarrow> ts)))"
  "map_of (stringifyProps toISO (searchRecordKeywords upper lower doc)) ''tags'' =
     Some (JArray (map JString (case tags (data doc) of None \<Rightarrow> [] | Some ts \<Rightarrow> ts)))"
  by (simp_all add: searchRecord_def searchRecordKeywords_def Let_def tagsOf_def comp_def
      split: option.splits)

lemma served_lastUpdated:
  "map_of (stringifyProps toISO (searchRecord upper toISO doc)) ''lastUpdated'' =
     Some (case lastUpdated (data doc) of
             None \<Rightarrow> JNull
           | Some d \<Rightarrow> if toISO d = [] then JNull else JString (toISO d))"
  "map_of (stringifyProps toISO (searchRecordKeywords upper lower doc)) ''lastUpdated'' =
     Some (case lastUpdated (data doc) of None \<Rightarrow> JNull | Some d \<Rightarrow> JString (toISO d))"
  by (simp_all add: searchRecord_def searchRecordKeywords_def Let_def tagsOf_def
      split: option.splits)

text \<open>
  C4, as the code has it. Every object of the served array has the key \<open>content\<close>
  (the whole body) besides the keys the claim lists: its keys are, in this order,
  \<open>title\<close>, \<open>description\<close>, \<open>url\<close>, \<open>app\<close>, \<open>category\<close>, \<open>tags\<close>, \<open>content\<close>, \<open>excerpt\<close>,
  in the version with keywords \<open>keywords\<close>, and \<open>lastUpdated\<close>; \<open>tags\<close> is an array of
  strings and \<open>lastUpdated\<close> is the date's ISO string or \<open>null\<close>.
\<close>

theorem served_record_keys:
  "map fst (stringifyProps toISO (searchRecord upper toISO doc)) =
     [''title'', ''description'', ''url'', ''app'', ''category'', ''tags'', ''content'',
      ''excerpt'', ''lastUpdated''] \<and>
   map fst (stringifyProps toISO (searchRecordKeywords upper lower doc)) =
     [''title'', ''description'', ''url'', ''app'', ''category'', ''tags'', ''content'',
      ''excerpt'', ''keywords'', ''lastUpdated''] \<and>
   map_of (stringifyProps toISO (searchRecord upper toISO doc)) ''tags'' =
     Some (JArray (map JString (case tags (data doc) of None \<Rightarrow> [] | Some ts \<Rightarrow> ts))) \<and>
   map_of (stringifyProps toISO (searchRecordKeywords upper lower doc)) ''tags'' =
     Some (JArray (map JString (case tags (data doc) of None \<Rightarrow> [] | Some ts \<Rightarrow> ts))) \<and>
   map_of (stringifyProps toISO (searchRecord upper toISO doc)) ''lastUpdated'' =
     Some (case lastUpdated (data doc) of
             None \<Rightarrow> JNull
           | Some d \<Rightarrow> if toISO d = [] then JNull else JString (toISO d)) \<and>
   map_of (stringifyProps toISO (searchRecordKeywords upper lower doc)) ''lastUpdated'' =
     Some (case lastUpdated (data doc) of None \<Rightarrow> JNull | Some d \<Rightarrow> JString (toISO d)) \<and>
   map_of (stringifyProps toISO (searchRecord upper toISO doc)) ''content'' =
     Some (JString (contentOf doc))"
  by (simp add: served_keys served_keys_keywords served_tags served_lastUpdated)
    (simp add: searchRecord_def Let_def tagsOf_def split: option.splits)

theorem served_record_keys_witness:
  "map fst (stringifyProps epochISO (searchRecordKeywords asciiUpper asciiLower exampleDoc)) =
     [''title'', ''description'', ''url'', ''app'', ''category'', ''tags'', ''content'',
      ''excerpt'', ''keywords'', ''lastUpdated''] \<and>
   map_of (stringifyProps epochISO (searchRecord asciiUpper epochISO exampleDoc)) ''lastUpdated'' =
     Some (JString (js ''1970-01-01T00:00:00.000Z'')) \<and>
   map_of (stringifyProps epochISO (searchRecord asciiUpper epochISO exampleDoc)) ''tags'' =
     Some (JArray [JString (js ''support'')])"
  using served_record_keys [of epochISO asciiUpper exampleDoc asciiLower]
  by (simp add: exampleDoc_def epochISO_def js_def)

text \<open>
  The claim as stated fails: the record served for the example document has a key
  outside the listed ones.
\<close>

theorem served_record_keys_counterexample:
  "\<not> set (map fst (stringifyProps epochISO (searchRecord asciiUpper epochISO exampleDoc)))
       \<subseteq> {''title'', ''description'', ''url'', ''app'', ''category'', ''tags'',
            ''excerpt'', ''keywords'', ''lastUpdated''}"
  by (simp add: served_keys)

subsection \<open>Application name\<close>

lemma join_Cons: "ws \<noteq> [] \<Longrightarrow> join sep (w # ws) = w @ sep @ join sep ws"
  by (cases ws) auto

lemma capitalize_simps [simp]:
  "capitalize upper [] = []" "capitalize upper (c # w) = upper c @ w"
  by (simp_all add: capitalize_def toUpperCase_def charAt_def slice_js_tail)

lemma displayName_split:
  "split 0x2D s = w # ws \<Longrightarrow>
     displayName upper False s = join (js '' '') (w # map (capitalize upper) ws) \<and>
     displayName upper True s = join (js '' '') (capitalize upper w # map (capitalize upper) ws)"
proof (induction s arbitrary: w ws)
  case Nil
  then show ?case by simp
next
  case (Cons c cs)
  obtain v vs where sp: "split 0x2D cs = v # vs"
    using split_not_Nil [of "0x2D" cs] by (cases "split 0x2D cs") auto
  note ih = Cons.IH [OF sp]
  show ?case
  proof (cases "c = 0x2D")
    case True
    with Cons.prems sp have "w = []" "ws = v # vs" by auto
    with True ih show ?thesis by (simp add: js_def)
  next
    case False
    with Cons.prems sp have "w = c # v" "ws = vs" by auto
    with False ih show ?thesis by (cases vs) (simp_all add: js_def)
  qed
qed

lemma appName_displayName: "appName upper seg = displayName upper True seg"
proof -
  obtain w ws where sp: "split 0x2D seg = w # ws"
    using split_not_Nil [of "0x2D" seg] by (cases "split 0x2D seg") auto
  have "appName upper seg = join (js '' '') (map (capitalize upper) (split 0x2D seg))"
    unfolding appName_def capitalize_def ..
  with sp displayName_split [OF sp, of upper] show ?thesis by simp
qed

text \<open>
  C6. The application name of a record is its path segment with every \<open>-\<close>
  replaced by a space and the first unit of every word (the pieces between the
  hyphens) upper-cased; \<open>application-one\<close> gives \<open>Application One\<close> and
  \<open>application-two\<close> gives \<open>Application Two\<close>.
\<close>

theorem appName_display_name:
  "appName upper seg = displayName upper True seg \<and>
   map_of (searchRecord upper toISO doc) ''app'' =
     Some (Str (displayName upper True (firstSegment (slug doc)))) \<and>
   appName asciiUpper (js ''application-one'') = js ''Application One'' \<and>
   appName asciiUpper (js ''application-two'') = js ''Application Two''"
proof -
  have "displayName asciiUpper True (js ''application-one'') = js ''Application One''"
    and "displayName asciiUpper True (js ''application-two'') = js ''Application Two''"
    by (simp_all add: js_def asciiUpper_def)
  then show ?thesis
    by (simp add: appName_displayName searchRecord_def Let_def)
qed

theorem appName_display_name_witness:
  "map_of (searchRecord asciiUpper epochISO exampleDoc) ''app'' = Some (Str (js ''Application One'')) \<and>
   appName asciiUpper (js ''application-three'') = js ''Application Three''"
  using appName_display_name [of asciiUpper "js ''application-three''" epochISO exampleDoc]
  by (simp add: exampleDoc_def firstSegment_def js_def asciiUpper_def)

subsection \<open>Keywords\<close>

lemma isAlpha_isWordChar: "isAlpha c \<Longrightarrow> isWordChar c"
  by (simp add: isWordChar_def)

lemma backtrack_short: "k < 3 \<Longrightarrow> backtrack k s = None"
  by (cases k) auto

lemma backtrack_inner:
  assumes "\<forall>i<k. isAlpha (s ! i)" and "k < length s" and "isWordChar (s ! k)"
  shows "j \<le> k \<Longrightarrow> backtrack j s = None"
proof (induction j)
  case 0
  then show ?case by simp
next
  case (Suc j)
  then have j: "j < k" by simp
  with assms have "isWordChar (s ! j)" by (simp add: isAlpha_isWordChar)
  moreover have "isWordChar (s ! Suc j)"
    using assms Suc.prems by (cases "Suc j = k") (auto simp: isAlpha_isWordChar)
  moreover have "drop (Suc j) s = s ! Suc j # drop (Suc (Suc j)) s"
    using assms(2) Suc.prems by (simp add: Cons_nth_drop_Suc)
  ultimately have "\<not> boundary (isWordChar (s ! j)) (drop (Suc j) s)"
    by (simp add: boundary_def)
  with Suc show ?case by simp
qed

lemma takeWhile_alpha_all:
  "list_all isAlpha (takeWhile isWordChar s) \<Longrightarrow> takeWhile isAlpha s = takeWhile isWordChar s"
  by (induction s) (auto simp: isAlpha_isWordChar)

lemma takeWhile_alpha_stop:
  "\<not> list_all isAlpha (takeWhile isWordChar s) \<Longrightarrow>
     length (takeWhile isAlpha s) < length s \<and> isWordChar (s ! length (takeWhile isAlpha s))"
  by (induction s) (auto simp: isAlpha_isWordChar split: if_splits)

lemma takeWhile_alpha_nth: "i < length (takeWhile isAlpha s) \<Longrightarrow> isAlpha (s ! i)"
  by (metis nth_mem set_takeWhileD takeWhile_nth)

lemma boundary_after_run: "boundary True (dropWhile isWordChar s)"
  by (induction s) (auto simp: boundary_def)

lemma matchAt_whole:
  assumes "wholeWord (takeWhile isWordChar s)"
  shows "matchAt False s = Some (length (takeWhile isWordChar s))"
proof -
  let ?w = "takeWhile isWordChar s"
  let ?n = "length ?w"
  from assms have n: "3 \<le> ?n" and alpha: "list_all isAlpha ?w"
    by (simp_all add: wholeWord_def)
  then obtain m where m: "?n = Suc m"
    by (cases ?n) auto
  have "s ! m = ?w ! m"
    using m by (simp add: takeWhile_nth)
  moreover have "?w ! m \<in> set ?w"
    using m by simp
  ultimately have last: "isWordChar (s ! m)"
    by (metis set_takeWhileD)
  have "s \<noteq> []" using n by auto
  then obtain c cs where s: "s = c # cs" by (cases s) auto
  with n have "isWordChar c" by (auto split: if_splits)
  then have start: "boundary False s"
    by (simp add: boundary_def s)
  have "drop ?n s = dropWhile isWordChar s"
    by (metis append_eq_conv_conj takeWhile_dropWhile_id)
  then have "boundary (isWordChar (s ! m)) (drop (Suc m) s)"
    using last boundary_after_run [of s] m by simp
  then have "backtrack ?n s = Some ?n"
    using n m by simp
  with start takeWhile_alpha_all [OF alpha] show ?thesis
    by (simp add: matchAt_def)
qed

lemma matchAt_not_whole:
  assumes "\<not> wholeWord (takeWhile isWordChar s)"
  shows "matchAt False s = None"
proof (cases "list_all isAlpha (takeWhile isWordChar s)")
  case True
  with assms have "length (takeWhile isAlpha s) < 3"
    by (simp add: wholeWord_def takeWhile_alpha_all)
  then show ?thesis
    by (simp add: matchAt_def backtrack_short)
next
  case False
  from takeWhile_alpha_stop [OF False] takeWhile_alpha_nth
  have "backtrack (length (takeWhile isAlpha s)) s = None"
    by (intro backtrack_inner [where k = "length (takeWhile isAlpha s)"]) auto
  then show ?thesis
    by (simp add: matchAt_def)
qed

lemma matchAt_inside: "matchAt True (c # cs) = None"
proof (cases "isWordChar c")
  case True
  then show ?thesis by (simp add: matchAt_def boundary_def)
next
  case False
  then have "\<not> isAlpha c" by (auto simp: isAlpha_isWordChar)
  then show ?thesis by (simp add: matchAt_def)
qed

lemma matchAll_inside: "matchAll True s = matchAll False (dropWhile isWordChar s)"
proof (induction s)
  case Nil
  then show ?case by simp
next
  case (Cons c cs)
  show ?case
  proof (cases "isWordChar c")
    case True
    with Cons show ?thesis by (simp add: matchAt_inside)
  next
    case False
    then have "matchAt False (c # cs) = None"
      by (simp add: matchAt_def boundary_def)
    with False show ?thesis by (simp add: matchAt_inside)
  qed
qed

lemma matchAll_runs: "matchAll False s = filter wholeWord (runs isWordChar s)"
proof (induction isWordChar s rule: runs.induct)
  case 1
  then show ?case by simp
next
  case (2 c cs)
  show ?case
  proof (cases "isWordChar c")
    case False
    then have "matchAt False (c # cs) = None"
      by (simp add: matchAt_def boundary_def)
    with False 2 show ?thesis by simp
  next
    case True
    let ?w = "takeWhile isWordChar (c # cs)"
    have w: "?w = c # takeWhile isWordChar cs" and d: "dropWhile isWordChar (c # cs) = dropWhile isWordChar cs"
      using True by simp_all
    have rest: "matchAll True (dropWhile isWordChar cs) = filter wholeWord (runs isWordChar (dropWhile isWordChar cs))"
      using 2(1) [OF True] by (simp add: matchAll_inside)
    show ?thesis
    proof (cases "wholeWord ?w")
      case whole: True
      have n: "length ?w = Suc (length (takeWhile isWordChar cs))"
        using w by simp
      have "(c # cs) ! length (takeWhile isWordChar cs) \<in> set ?w"
        by (metis n lessI nth_mem takeWhile_nth)
      then have last: "isWordChar ((c # cs) ! length (takeWhile isWordChar cs))"
        by (metis set_takeWhileD)
      have tk: "take (length ?w) (c # cs) = ?w"
        by (metis append_eq_conv_conj takeWhile_dropWhile_id)
      have dr: "drop (length ?w) (c # cs) = dropWhile isWordChar cs"
        by (metis append_eq_conv_conj takeWhile_dropWhile_id d)
      have "matchAll False (c # cs) = ?w # matchAll True (dropWhile isWordChar cs)"
        using matchAt_whole [OF whole] tk dr last unfolding n
        by (simp only: matchAll.simps option.case diff_Suc_1) 
      with whole True rest show ?thesis by simp
    next
      case part: False
      have "matchAll False (c # cs) = matchAll True cs"
        using matchAt_not_whole [OF part] True by simp
      also have "\<dots> = matchAll True (dropWhile isWordChar cs)"
        by (simp add: matchAll_inside)
      finally show ?thesis using part True rest by simp
    qed
  qed
qed


lemma contentKeywords_runs:
  "contentKeywords lower content =
     join (js '' '') (take 50 (filter wholeWord (runs isWordChar (lower content))))"
proof (cases "matchAll False (lower content)")
  case Nil
  then show ?thesis
    by (simp add: contentKeywords_def matchWords_def matchAll_runs [symmetric])
next
  case (Cons m ms)
  then show ?thesis
    using slice_js_take [of 50 "m # ms"]
    by (simp add: contentKeywords_def matchWords_def matchAll_runs [symmetric] Let_def)
qed

text \<open>
  C5, as the code has it. The expression \<open>\b[a-zA-Z]{3,}\b\<close> extracts whole words
  only: the lower-cased body is split into its maximal runs of word characters
  \<open>[A-Za-z0-9_]\<close>, and the runs of at least three units that consist of ASCII
  letters only are kept; a run of letters that touches a digit or an underscore is
  not extracted. The first 50 of them are joined with single spaces (the empty
  string when there is none).
\<close>

theorem keywords_whole_words:
  "contentKeywords lower content =
     join (js '' '')
       (take 50 (filter (\<lambda>w. 3 \<le> length w \<and> list_all isAlpha w)
          (runs isWordChar (lower content)))) \<and>
   map_of (searchRecordKeywords upper lower doc) ''keywords'' =
     Some (Str (join (js '' '')
       (take 50 (filter (\<lambda>w. 3 \<le> length w \<and> list_all isAlpha w)
          (runs isWordChar (lower (contentOf doc)))))))"
proof -
  have "wholeWord = (\<lambda>w. 3 \<le> length w \<and> list_all isAlpha w)"
    by (auto simp: wholeWord_def)
  then show ?thesis
    using contentKeywords_runs [of lower]
    by (simp add: searchRecordKeywords_def Let_def)
qed

theorem keywords_whole_words_witness:
  "map_of (searchRecordKeywords asciiUpper asciiLower exampleDoc) ''keywords'' =
     Some (Str (js ''setup for application one''))"
  using keywords_whole_words [of asciiLower "[]" asciiUpper exampleDoc]
  by (simp add: exampleDoc_def contentOf_def js_def asciiLower_def isWordChar_def isAlpha_def)

text \<open>
  The claim as stated (all runs of three or more letters) fails on the example
  document, whose body holds \<open>app_config\<close>: the code extracts neither \<open>app\<close> nor
  \<open>config\<close>.
\<close>

theorem keywords_counterexample:
  "map_of (searchRecordKeywords asciiUpper asciiLower exampleDoc) ''keywords'' =
     Some (Str (js ''setup for application one'')) \<and>
   join (js '' '') (take 50 (filter (\<lambda>w. 3 \<le> length w)
      (runs isAlpha (asciiLower (contentOf exampleDoc))))) =
     js ''setup app config for application one'' \<and>
   map_of (searchRecordKeywords asciiUpper asciiLower exampleDoc) ''keywords'' \<noteq>
     Some (Str (join (js '' '') (take 50 (filter (\<lambda>w. 3 \<le> length w)
       (runs isAlpha (asciiLower (contentOf exampleDoc)))))))"
proof -
  have code: "map_of (searchRecordKeywords asciiUpper asciiLower exampleDoc) ''keywords'' =
     Some (Str (js ''setup for application one''))"
    using contentKeywords_runs [of asciiLower "contentOf exampleDoc"]
    by (simp add: searchRecordKeywords_def Let_def)
      (simp add: exampleDoc_def contentOf_def js_def asciiLower_def isWordChar_def isAlpha_def wholeWord_def)
  have claim: "join (js '' '') (take 50 (filter (\<lambda>w. 3 \<le> length w)
      (runs isAlpha (asciiLower (contentOf exampleDoc))))) =
     js ''setup app config for application one''"
    by (simp add: exampleDoc_def contentOf_def js_def asciiLower_def isAlpha_def)
  show ?thesis
    unfolding code claim by (simp add: js_def)
qed

section \<open>Properties of the search client\<close>

subsection \<open>What a query reads and writes\<close>

lemma hideResults_fields [simp]:
  "fuse (hideResults st) = fuse st" "timers (hideResults st) = timers st"
  "searchTimeout (hideResults st) = searchTimeout st" "nextTimer (hideResults st) = nextTimer st"
  "now (hideResults st) = now st" "inputValue (hideResults st) = inputValue st"
  "queries (hideResults st) = queries st" "engineCalls (hideResults st) = engineCalls st"
  "uncaught (hideResults st) = uncaught st" "console (hideResults st) = console st"
  "resultsContent (hideResults st) = resultsContent st"
  by (simp_all add: hideResults_def split: option.splits)

lemma hideResults_hidden: "resultsHidden (hideResults st) \<noteq> Some False"
  by (simp add: hideResults_def split: option.splits)

lemma hideResults_hidden_True:
  "resultsHidden st = Some h \<Longrightarrow> resultsHidden (hideResults st) = Some True"
  by (simp add: hideResults_def)

lemma displayResults_fields [simp]:
  "fuse (displayResults rs st) = fuse st" "timers (displayResults rs st) = timers st"
  "searchTimeout (displayResults rs st) = searchTimeout st"
  "nextTimer (displayResults rs st) = nextTimer st"
  "now (displayResults rs st) = now st" "inputValue (displayResults rs st) = inputValue st"
  "queries (displayResults rs st) = queries st"
  "engineCalls (displayResults rs st) = engineCalls st"
  "uncaught (displayResults rs st) = uncaught st" "console (displayResults rs st) = console st"
  by (simp_all add: displayResults_def split: option.splits)

lemma callback_search_fields [simp]:
  "fuse (callback (search L q st)) = fuse st"
  "timers (callback (search L q st)) = timers st"
  "searchTimeout (callback (search L q st)) = searchTimeout st"
  "nextTimer (callback (search L q st)) = nextTimer st"
  "now (callback (search L q st)) = now st"
  "inputValue (callback (search L q st)) = inputValue st"
  "queries (callback (search L q st)) = queries st @ [q]"
  by (simp_all add: search_def callback_def Let_def split: option.splits sum.splits)

lemma callback_search_engineCalls:
  "engineCalls (callback (search L q st)) =
     engineCalls st @ (if fuse st \<noteq> None \<and> trim q \<noteq> [] then [q] else [])"
  by (simp add: search_def callback_def Let_def split: option.splits sum.splits)

lemma callback_search_unready:
  assumes "fuse st = None"
  shows "callback (search L q st) = hideResults (st\<lparr>queries := queries st @ [q]\<rparr>)"
  using assms by (simp add: search_def callback_def Let_def)

lemma fire_fields [simp]:
  "fuse (fire L ts st) = fuse st" "timers (fire L ts st) = timers st"
  "searchTimeout (fire L ts st) = searchTimeout st" "nextTimer (fire L ts st) = nextTimer st"
  "now (fire L ts st) = now st" "inputValue (fire L ts st) = inputValue st"
  by (induction L ts st rule: fire.induct) simp_all

lemma run_append: "run L (evs @ evs') st = run L evs' (run L evs st)"
  by (induction evs arbitrary: st) simp_all

lemma readyClient_eq:
  "readyClient =
     initialClient\<lparr>fuseModule := True, indexVar := JArray [],
       fuse := Some \<lparr>collection = JArray [], fuseOptions = options\<rparr>,
       console := [Initializing, IndexLoaded (JArray []), SearchInitialized]\<rparr>"
  by (simp add: readyClient_def initializeSearch_def tryInitialize_def answered_def
      responseOk_def initialClient_def quietLibrary_def Let_def)

lemma readyClient_fields:
  "fuse readyClient = Some \<lparr>collection = JArray [], fuseOptions = options\<rparr>"
  "timers readyClient = []" "queries readyClient = []" "engineCalls readyClient = []"
  "resultsHidden readyClient = Some True" "resultsContent readyClient = Some Placeholder"
  by (simp_all add: readyClient_eq initialClient_def)

lemma failedClient_eq:
  "failedClient =
     initialClient\<lparr>fuseModule := True, console := [Initializing, LoadFailed (HttpError 500)]\<rparr>"
  by (simp add: failedClient_def initializeSearch_def tryInitialize_def answered_def
      responseOk_def initialClient_def Let_def)

subsection \<open>The guard of \<open>search\<close>\<close>

text \<open>
  C3, as the code has it. The guard of \<open>search\<close> is \<open>!fuse || !query.trim()\<close>: for
  every query whose trimmed form is empty, and for every query while no engine has
  been constructed, \<open>search\<close> throws nothing, does not call the engine and leaves the
  results hidden. (A query of trimmed length 1 passes the guard.)
\<close>

theorem search_guard:
  "trim query = [] \<or> fuse st = None \<Longrightarrow>
     fst (search L query st) = None \<and>
     snd (search L query st) = hideResults (st\<lparr>queries := queries st @ [query]\<rparr>) \<and>
     engineCalls (snd (search L query st)) = engineCalls st \<and>
     resultsHidden (snd (search L query st)) \<noteq> Some False"
  by (auto simp: search_def Let_def hideResults_hidden split: option.splits)

theorem search_guard_witness:
  "trim (js ''  '') = [] \<and>
   engineCalls (snd (search quietLibrary (js ''  '') readyClient)) = [] \<and>
   resultsHidden (snd (search quietLibrary (js ''  '') readyClient)) = Some True"
  using search_guard [where query = "js ''  ''" and L = quietLibrary and st = readyClient]
  by (simp add: js_def trim_def isWhiteSpace_def readyClient_def initializeSearch_def
      tryInitialize_def answered_def responseOk_def initialClient_def quietLibrary_def
      hideResults_def Let_def)

text \<open>
  The claim as stated fails for the trimmed length 1: with the engine ready, the
  query \<open>a\<close> is handed to the engine and the results dropdown is shown.
\<close>

theorem search_one_character_counterexample:
  "length (trim (js ''a'')) = 1 \<and>
   engineCalls (snd (search quietLibrary (js ''a'') readyClient)) = [js ''a''] \<and>
   resultsHidden (snd (search quietLibrary (js ''a'') readyClient)) = Some False"
  by (simp add: js_def trim_def isWhiteSpace_def readyClient_def initializeSearch_def
      tryInitialize_def answered_def responseOk_def initialClient_def quietLibrary_def
      search_def displayResults_def Let_def)

subsection \<open>The weights of the searchable fields\<close>

lemma initialized_options:
  "(case fuse (snd (initializeSearch L out initialClient)) of
      None \<Rightarrow> True
    | Some f \<Rightarrow> fuseOptions f = options)"
  by (simp add: initializeSearch_def tryInitialize_def initialClient_def Let_def
      split: option.splits)

text \<open>
  C7, as the code has it. The engine is configured with the weights of the fields
  in non-increasing order: title above tags above description above keywords,
  keywords and app equal (both 0.1), and app above category. Every engine the
  client constructs carries these options.
\<close>

theorem weights_order:
  "map fst (keys options) =
     [''title'', ''tags'', ''description'', ''keywords'', ''app'', ''category''] \<and>
   (let weight = (\<lambda>name. the (map_of (keys options) name))
    in weight ''title'' > weight ''tags'' \<and> weight ''tags'' > weight ''description'' \<and>
       weight ''description'' > weight ''keywords'' \<and> weight ''keywords'' = weight ''app'' \<and>
       weight ''app'' > weight ''category'') \<and>
   (case fuse (snd (initializeSearch L out initialClient)) of
      None \<Rightarrow> True
    | Some f \<Rightarrow> fuseOptions f = options)"
proof -
  have "keys options =
     [(''title'', 0.3), (''tags'', 0.25), (''description'', 0.2),
      (''keywords'', 0.1), (''app'', 0.1), (''category'', 0.05)]"
    by (simp add: options_def)
  then show ?thesis
    using initialized_options [of L out] by simp
qed

theorem weights_order_witness:
  "map_option fuseOptions (fuse readyClient) = Some options \<and>
   map snd (keys options) = [0.3, 0.25, 0.2, 0.1, 0.1, 0.05]"
  using weights_order [of quietLibrary "answered 200"]
  by (simp add: readyClient_def initializeSearch_def
      tryInitialize_def answered_def responseOk_def initialClient_def quietLibrary_def Let_def)
     (simp add: options_def)

text \<open>
  The claim as stated fails between keywords and application: their weights are
  equal.
\<close>

theorem weights_counterexample:
  "map_of (keys options) ''keywords'' = Some 0.1 \<and> map_of (keys options) ''app'' = Some 0.1 \<and>
   \<not> the (map_of (keys options) ''keywords'') > the (map_of (keys options) ''app'')"
  by (simp add: options_def)

subsection \<open>A failed fetch\<close>

lemma hideResults_keeps_hidden:
  "resultsHidden st = Some True \<Longrightarrow> resultsHidden (hideResults st) = Some True"
  by (simp add: hideResults_def)

lemma fire_unready:
  "fuse st = None \<Longrightarrow>
     engineCalls (fire L ts st) = engineCalls st \<and> uncaught (fire L ts st) = uncaught st \<and>
     console (fire L ts st) = console st \<and> resultsContent (fire L ts st) = resultsContent st \<and>
     (resultsHidden st = Some True \<longrightarrow> resultsHidden (fire L ts st) = Some True)"
proof (induction L ts st rule: fire.induct)
  case (1 L st)
  then show ?case by simp
next
  case (2 L i due q ts st)
  let ?st = "callback (search L q st)"
  have eq: "?st = hideResults (st\<lparr>queries := queries st @ [q]\<rparr>)"
    using 2(2) by (rule callback_search_unready)
  have unready: "fuse ?st = None" using 2(2) by simp
  have "resultsHidden ?st = Some True" if "resultsHidden st = Some True"
    unfolding eq using that by (simp add: hideResults_keeps_hidden)
  moreover have "engineCalls ?st = engineCalls st" "uncaught ?st = uncaught st"
    "console ?st = console st" "resultsContent ?st = resultsContent st"
    unfolding eq by simp_all
  ultimately show ?case
    using 2(1) [OF unready] by simp
qed

lemma handle_unready:
  assumes "fuse st = None"
  shows "fuse (handle L ev st) = None \<and>
     engineCalls (handle L ev st) = engineCalls st \<and> uncaught (handle L ev st) = uncaught st \<and>
     console (handle L ev st) = console st \<and> resultsContent (handle L ev st) = resultsContent st \<and>
     (resultsHidden st = Some True \<longrightarrow> resultsHidden (handle L ev st) = Some True)"
proof (cases ev)
  case (Tick d)
  then show ?thesis
    using assms fire_unready [of "st\<lparr>now := now st + d,
        timers := filter (\<lambda>(i, due, q). \<not> due \<le> now st + d) (timers st)\<rparr>" L
        "filter (\<lambda>(i, due, q). due \<le> now st + d) (timers st)"]
    by (simp add: tick_def Let_def)
next
  case (Input v)
  then show ?thesis
    using assms by (simp add: onInput_def clearTimeout_def setTimeout_def Let_def)
next
  case Focus
  then show ?thesis
    using assms by (simp add: onFocus_def callback_search_unready hideResults_keeps_hidden)
next
  case (Click t)
  then show ?thesis
    using assms by (simp add: onClick_def hideResults_keeps_hidden)
next
  case (Keydown k)
  then show ?thesis
    using assms by (simp add: onKeydown_def hideResults_keeps_hidden)
qed

lemma run_unready:
  "fuse st = None \<Longrightarrow>
     fuse (run L evs st) = None \<and>
     engineCalls (run L evs st) = engineCalls st \<and> uncaught (run L evs st) = uncaught st \<and>
     console (run L evs st) = console st \<and> resultsContent (run L evs st) = resultsContent st \<and>
     (resultsHidden st = Some True \<longrightarrow> resultsHidden (run L evs st) = Some True)"
proof (induction evs arbitrary: st)
  case Nil
  then show ?case by simp
next
  case (Cons ev evs)
  from handle_unready [OF Cons.prems, of L ev] Cons.IH [of "handle L ev st"]
  show ?case by simp
qed

lemma initializeSearch_not_ok:
  assumes "importResolves out" and "fetched out = Some resp" and "\<not> responseOk resp"
  shows "initializeSearch L out st =
     (None, st\<lparr>fuseModule := True, console := console st @ [LoadFailed (HttpError (status resp))]\<rparr>)"
  using assms by (simp add: initializeSearch_def tryInitialize_def Let_def)

text \<open>
  C8. When the import resolves and the fetch is answered with a status outside
  200..299, \<open>initializeSearch\<close> lets no exception escape, and whatever events came
  before the answer and come after it (keystrokes, time, focus, clicks, keys), for
  every library: no engine is ever constructed or called, no exception goes
  uncaught, the results dropdown stays hidden with its content untouched, and the
  failure with its status is on the console.
\<close>

theorem failed_fetch_stays_silent:
  assumes "importResolves out" and "fetched out = Some resp" and "\<not> responseOk resp"
  shows "fst (initializeSearch L out (run L before initialClient)) = None \<and>
     (let st = run L after (snd (initializeSearch L out (run L before initialClient)))
      in fuse st = None \<and> engineCalls st = [] \<and> uncaught st = [] \<and>
         resultsHidden st = Some True \<and> resultsContent st = Some Placeholder \<and>
         LoadFailed (HttpError (status resp)) \<in> set (console st))"
proof -
  let ?loading = "run L before initialClient"
  let ?failed = "?loading\<lparr>fuseModule := True,
      console := console ?loading @ [LoadFailed (HttpError (status resp))]\<rparr>"
  have init: "initializeSearch L out ?loading = (None, ?failed)"
    using assms by (rule initializeSearch_not_ok)
  have "fuse initialClient = None"
    by (simp add: initialClient_def)
  from run_unready [OF this, of L before]
  have loading: "fuse ?loading = None" "engineCalls ?loading = []" "uncaught ?loading = []"
    "resultsHidden ?loading = Some True" "resultsContent ?loading = Some Placeholder"
    by (simp_all add: initialClient_def)
  then have "fuse ?failed = None"
    by simp
  from run_unready [OF this, of L after] loading
  show ?thesis
    unfolding init by (simp add: Let_def)
qed

theorem failed_fetch_stays_silent_witness:
  "importResolves (answered 500) \<and>
   fetched (answered 500) = Some \<lparr>status = 500, jsonBody = Some (JArray [])\<rparr> \<and>
   \<not> responseOk \<lparr>status = 500, jsonBody = Some (JArray [])\<rparr> \<and>
   fuse (run quietLibrary [Input (js ''guide''), Tick 300, Focus] failedClient) = None \<and>
   engineCalls (run quietLibrary [Input (js ''guide''), Tick 300, Focus] failedClient) = [] \<and>
   uncaught (run quietLibrary [Input (js ''guide''), Tick 300, Focus] failedClient) = [] \<and>
   resultsHidden (run quietLibrary [Input (js ''guide''), Tick 300, Focus] failedClient) = Some True"
  using failed_fetch_stays_silent [of "answered 500" "\<lparr>status = 500, jsonBody = Some (JArray [])\<rparr>"
      quietLibrary "[]" "[Input (js ''guide''), Tick 300, Focus]"]
  by (simp add: answered_def responseOk_def failedClient_def Let_def)

subsection \<open>The debounce timer\<close>

lemma singleSlot_cases:
  "singleSlot st \<longleftrightarrow>
     timers st = [] \<or> (\<exists>i due q. timers st = [(i, due, q)] \<and> searchTimeout st = Some i)"
  by (auto simp: singleSlot_def split: list.splits)

lemma singleSlot_length: "singleSlot st \<Longrightarrow> length (timers st) \<le> 1"
  by (auto simp: singleSlot_cases)

lemma singleSlot_callback_search [simp]:
  "singleSlot (callback (search L q st)) = singleSlot st"
  by (simp add: singleSlot_cases)

lemma singleSlot_hideResults [simp]: "singleSlot (hideResults st) = singleSlot st"
  by (simp add: singleSlot_cases)

lemma singleSlot_fire [simp]: "singleSlot (fire L ts st) = singleSlot st"
  by (simp add: singleSlot_cases)

lemma singleSlot_handle: "singleSlot st \<Longrightarrow> singleSlot (handle L ev st)"
proof (cases ev)
  case (Tick d)
  assume "singleSlot st"
  then have "singleSlot (st\<lparr>now := now st + d,
      timers := filter (\<lambda>(i, due, q). \<not> due \<le> now st + d) (timers st)\<rparr>)"
    by (cases "timers st") (auto simp: singleSlot_def split: list.splits if_splits)
  with Tick show ?thesis by (simp add: tick_def Let_def)
next
  case (Input v)
  assume "singleSlot st"
  then have "filter (\<lambda>(i, due, q). Some i \<noteq> searchTimeout st) (timers st) = []"
    by (auto simp: singleSlot_cases)
  with Input show ?thesis
    by (simp add: onInput_def clearTimeout_def setTimeout_def Let_def singleSlot_def)
next
  case Focus
  assume "singleSlot st"
  with Focus show ?thesis by (simp add: onFocus_def)
next
  case (Click t)
  assume "singleSlot st"
  with Click show ?thesis by (simp add: onClick_def)
next
  case (Keydown k)
  assume "singleSlot st"
  with Keydown show ?thesis by (simp add: onKeydown_def)
qed

lemma singleSlot_run: "singleSlot st \<Longrightarrow> singleSlot (run L evs st)"
  by (induction evs arbitrary: st) (simp_all add: singleSlot_handle)

lemma keystroke_replaces:
  assumes "timers st = [] \<or> (d < 300 \<and> (\<exists>i q. timers st = [(i, now st + 300, q)] \<and> searchTimeout st = Some i))"
  shows "\<exists>i. timers (run L [Tick d, Input v] st) = [(i, now (run L [Tick d, Input v] st) + 300, v)] \<and>
     searchTimeout (run L [Tick d, Input v] st) = Some i"
    and "fuse (run L [Tick d, Input v] st) = fuse st"
    and "queries (run L [Tick d, Input v] st) = queries st"
    and "engineCalls (run L [Tick d, Input v] st) = engineCalls st"
  using assms
  by (auto simp: tick_def onInput_def clearTimeout_def setTimeout_def Let_def)

lemma burst_replaces:
  assumes "\<exists>i. timers st = [(i, now st + 300, q)] \<and> searchTimeout st = Some i"
    and "\<forall>(d, v) \<in> set ks. d < 300"
  shows "(\<exists>i. timers (run L (keystrokes ks) st) =
            [(i, now (run L (keystrokes ks) st) + 300, last (q # map snd ks))] \<and>
          searchTimeout (run L (keystrokes ks) st) = Some i) \<and>
     fuse (run L (keystrokes ks) st) = fuse st \<and>
     queries (run L (keystrokes ks) st) = queries st \<and>
     engineCalls (run L (keystrokes ks) st) = engineCalls st"
  using assms
proof (induction ks arbitrary: st q)
  case Nil
  then show ?case by simp
next
  case (Cons k ks)
  obtain d v where k: "k = (d, v)" by (cases k)
  let ?st = "run L [Tick d, Input v] st"
  from Cons.prems k have pre: "timers st = [] \<or>
      (d < 300 \<and> (\<exists>i q. timers st = [(i, now st + 300, q)] \<and> searchTimeout st = Some i))"
    by auto
  have rest: "\<forall>(d, v) \<in> set ks. d < 300"
    using Cons.prems by simp
  have split: "run L (keystrokes (k # ks)) st = run L (keystrokes ks) ?st"
    by (simp add: k)
  from Cons.IH [OF keystroke_replaces(1) [OF pre] rest, of L v]
    keystroke_replaces(2-4) [OF pre, of L v]
  show ?case
    unfolding split by (cases "ks = []") (auto simp: k)
qed

lemma due_timer_fires:
  assumes "timers st = [(i, now st + 300, q)]" and "300 \<le> wait"
  shows "run L [Tick wait] st = callback (search L q (st\<lparr>now := now st + wait, timers := []\<rparr>))"
  using assms by (simp add: tick_def Let_def)

lemma debounce_burst:
  assumes "timers st = []" and "ks \<noteq> []" and "\<forall>(d, v) \<in> set (tl ks). d < 300"
    and "300 \<le> wait"
  shows "(\<forall>n. length (timers (run L (take n (keystrokes ks)) st)) \<le> 1) \<and>
     queries (run L (keystrokes ks) st) = queries st \<and>
     (let final = snd (last ks); st' = run L (keystrokes ks @ [Tick wait]) st
      in queries st' = queries st @ [final] \<and>
         timers st' = [] \<and>
         engineCalls st' =
           engineCalls st @ (if fuse st \<noteq> None \<and> trim final \<noteq> [] then [final] else []))"
proof -
  have "singleSlot st"
    using assms(1) by (simp add: singleSlot_def)
  then have "length (timers (run L (take n (keystrokes ks)) st)) \<le> 1" for n
    by (intro singleSlot_length singleSlot_run)
  then have slot: "\<forall>n. length (timers (run L (take n (keystrokes ks)) st)) \<le> 1" ..
  obtain d v rest where ks: "ks = (d, v) # rest"
    using assms(2) by (cases ks) auto
  let ?st1 = "run L [Tick d, Input v] st"
  have pre: "timers st = [] \<or>
      (d < 300 \<and> (\<exists>i q. timers st = [(i, now st + 300, q)] \<and> searchTimeout st = Some i))"
    using assms(1) by simp
  have rest: "\<forall>(d, v) \<in> set rest. d < 300"
    using assms(3) ks by simp
  have split: "run L (keystrokes ks) st = run L (keystrokes rest) ?st1"
    by (simp add: ks)
  have final: "snd (last ks) = last (v # map snd rest)"
    by (simp add: ks last_map)
  let ?st2 = "run L (keystrokes ks) st"
  from burst_replaces [where L = L, OF keystroke_replaces(1) [OF pre, of L v] rest]
    keystroke_replaces(2-4) [OF pre, of L v]
  obtain i where pending: "timers ?st2 = [(i, now ?st2 + 300, snd (last ks))]"
    and same: "fuse ?st2 = fuse st" "queries ?st2 = queries st" "engineCalls ?st2 = engineCalls st"
    unfolding split final by auto
  have "run L (keystrokes ks @ [Tick wait]) st =
      callback (search L (snd (last ks)) (?st2\<lparr>now := now ?st2 + wait, timers := []\<rparr>))"
    unfolding run_append by (rule due_timer_fires [OF pending assms(4)])
  with slot same show ?thesis
    by (simp add: Let_def callback_search_engineCalls)
qed

text \<open>
  C9, as the code has it. For a burst of keystrokes that starts with no timer
  pending and in which every keystroke after the first comes less than 300 ms after
  the one before: at every moment at most one timer is pending, no query runs
  during the burst, and once 300 ms have passed after the last keystroke \<open>search\<close>
  has run exactly once, with the text of the last keystroke. That run calls the
  engine once when the engine is constructed and the text has a non-blank
  character, and not at all otherwise.
\<close>

theorem debounce_one_query:
  assumes "timers st = []" and "ks \<noteq> []" and "\<forall>(d, v) \<in> set (tl ks). d < 300"
    and "300 \<le> wait"
  shows "(\<forall>n. length (timers (run L (take n (keystrokes ks)) st)) \<le> 1) \<and>
     queries (run L (keystrokes ks) st) = queries st \<and>
     (let final = snd (last ks); st' = run L (keystrokes ks @ [Tick wait]) st
      in queries st' = queries st @ [final] \<and>
         timers st' = [] \<and>
         engineCalls st' =
           engineCalls st @ (if fuse st \<noteq> None \<and> trim final \<noteq> [] then [final] else []))"
  using assms by (rule debounce_burst)

theorem debounce_one_query_witness:
  "timers readyClient = [] \<and> (100 :: nat) < 300 \<and> (120 :: nat) < 300 \<and>
   queries (run quietLibrary
     (keystrokes [(0, js ''g''), (100, js ''gu''), (120, js ''gui'')] @ [Tick 300]) readyClient) =
     [js ''gui''] \<and>
   engineCalls (run quietLibrary
     (keystrokes [(0, js ''g''), (100, js ''gu''), (120, js ''gui'')] @ [Tick 300]) readyClient) =
     [js ''gui'']"
  using debounce_one_query [of readyClient "[(0, js ''g''), (100, js ''gu''), (120, js ''gui'')]"
      300 quietLibrary]
  by (simp add: readyClient_fields Let_def js_def trim_def isWhiteSpace_def)

text \<open>
  The claim as stated fails when the burst ends on an empty input (a character
  typed and deleted): the one query that runs does not reach the engine, so there
  is no engine invocation at all.
\<close>

theorem debounce_cleared_input_counterexample:
  "timers readyClient = [] \<and> fuse readyClient \<noteq> None \<and> (100 :: nat) < 300 \<and>
   engineCalls (run quietLibrary (keystrokes [(0, js ''a''), (100, [])] @ [Tick 300]) readyClient) = [] \<and>
   queries (run quietLibrary (keystrokes [(0, js ''a''), (100, [])] @ [Tick 300]) readyClient) = [[]]"
  using debounce_burst [of readyClient "[(0, js ''a''), (100, [])]" 300 quietLibrary]
  by (simp add: readyClient_fields Let_def trim_def)

subsection \<open>Focus\<close>

lemma focus_search:
  assumes "trim (inputValue st) \<noteq> []"
  shows "handle L Focus st = callback (search L (inputValue st) st) \<and>
     queries (handle L Focus st) = queries st @ [inputValue st] \<and>
     timers (handle L Focus st) = timers st \<and> now (handle L Focus st) = now st \<and>
     (case fuse st of
        Some f \<Rightarrow> engineCalls (handle L Focus st) = engineCalls st @ [inputValue st]
      | None \<Rightarrow>
          engineCalls (handle L Focus st) = engineCalls st \<and>
          resultsHidden (handle L Focus st) \<noteq> Some False)"
  using assms
  by (simp add: onFocus_def callback_search_engineCalls callback_search_unready
      hideResults_hidden split: option.splits)

text \<open>
  C10, as the code has it. When the input gets the focus while its trimmed value
  is non-empty, the listener calls \<open>search\<close> with the value inside the handler
  itself: no timer is set and no time passes. The engine is called with the value
  when it has been constructed; otherwise it is not called and the results stay
  hidden.
\<close>

theorem focus_searches_at_once:
  assumes "trim (inputValue st) \<noteq> []"
  shows "handle L Focus st = callback (search L (inputValue st) st) \<and>
     queries (handle L Focus st) = queries st @ [inputValue st] \<and>
     timers (handle L Focus st) = timers st \<and> now (handle L Focus st) = now st \<and>
     (case fuse st of
        Some f \<Rightarrow> engineCalls (handle L Focus st) = engineCalls st @ [inputValue st]
      | None \<Rightarrow>
          engineCalls (handle L Focus st) = engineCalls st \<and>
          resultsHidden (handle L Focus st) \<noteq> Some False)"
  using assms by (rule focus_search)

theorem focus_searches_at_once_witness:
  "trim (inputValue (readyClient\<lparr>inputValue := js ''guide''\<rparr>)) \<noteq> [] \<and>
   engineCalls (handle quietLibrary Focus (readyClient\<lparr>inputValue := js ''guide''\<rparr>)) =
     [js ''guide''] \<and>
   timers (handle quietLibrary Focus (readyClient\<lparr>inputValue := js ''guide''\<rparr>)) = []"
proof -
  have typed: "trim (inputValue (readyClient\<lparr>inputValue := js ''guide''\<rparr>)) \<noteq> []"
    by (simp add: js_def trim_def isWhiteSpace_def)
  from focus_searches_at_once [OF typed, of quietLibrary, THEN conjunct2] typed
  show ?thesis
    by (simp add: readyClient_fields)
qed

text \<open>
  The claim as stated fails while no engine is constructed: after the failed
  fetch, a focus on the input holding \<open>guide\<close> calls no engine.
\<close>

theorem focus_unready_counterexample:
  "trim (inputValue (failedClient\<lparr>inputValue := js ''guide''\<rparr>)) \<noteq> [] \<and>
   engineCalls (handle quietLibrary Focus (failedClient\<lparr>inputValue := js ''guide''\<rparr>)) = [] \<and>
   resultsHidden (handle quietLibrary Focus (failedClient\<lparr>inputValue := js ''guide''\<rparr>)) = Some True"
proof -
  have failed: "failedClient =
     initialClient\<lparr>fuseModule := True, console := [Initializing, LoadFailed (HttpError 500)]\<rparr>"
    by (simp add: failedClient_def initializeSearch_def tryInitialize_def answered_def
      responseOk_def initialClient_def Let_def)
  have "trim (js ''guide'') \<noteq> []"
    by (simp add: js_def trim_def isWhiteSpace_def)
  then show ?thesis
    by (simp add: failed initialClient_def hideResults_def onFocus_def callback_search_unready)
qed

end
